theory Spec2Isabelle
  imports Complex_Main
begin

section \<open>JavaScript numbers\<close>

text \<open>
  The planner computes on JavaScript Numbers. A Number is modelled as a real number or
  one of the three special values the code can produce from real arguments: the two
  infinities (division by zero) and NaN (\<open>0/0\<close>, \<open>Math.sqrt\<close> and \<open>Math.pow\<close> of a negative
  base, \<open>parseFloat\<close> of an empty field). Arithmetic on finite values is exact: binary
  rounding, overflow and the sign of zero are outside the model. The sign of zero is
  only observable through a division by zero, and every divisor of the modelled code
  that can be zero is a product of positive constants and \<open>Math.pow\<close> results, which
  are \<open>+0\<close> there.
\<close>

datatype jsnum = Fin real | PInf | NInf | NaN

fun js_neg :: "jsnum \<Rightarrow> jsnum" where
  "js_neg (Fin a) = Fin (- a)"
| "js_neg PInf = NInf"
| "js_neg NInf = PInf"
| "js_neg NaN = NaN"

fun js_add :: "jsnum \<Rightarrow> jsnum \<Rightarrow> jsnum" where
  "js_add (Fin a) (Fin b) = Fin (a + b)"
| "js_add NaN _ = NaN"
| "js_add _ NaN = NaN"
| "js_add PInf NInf = NaN"
| "js_add NInf PInf = NaN"
| "js_add PInf _ = PInf"
| "js_add _ PInf = PInf"
| "js_add NInf _ = NInf"
| "js_add _ NInf = NInf"

definition js_sub :: "jsnum \<Rightarrow> jsnum \<Rightarrow> jsnum" where
  "js_sub a b = js_add a (js_neg b)"

text \<open>The sign of a Number as seen by multiplication: \<open>None\<close> for NaN.\<close>

fun js_sign :: "jsnum \<Rightarrow> int option" where
  "js_sign (Fin a) = Some (if a < 0 then - 1 else if a = 0 then 0 else 1)"
| "js_sign PInf = Some 1"
| "js_sign NInf = Some (- 1)"
| "js_sign NaN = None"

definition js_inf_of_sign :: "int \<Rightarrow> jsnum" where
  "js_inf_of_sign s = (if s = 0 then NaN else if 0 < s then PInf else NInf)"

fun js_mul :: "jsnum \<Rightarrow> jsnum \<Rightarrow> jsnum" where
  "js_mul (Fin a) (Fin b) = Fin (a * b)"
| "js_mul x y =
     (case (js_sign x, js_sign y) of
        (Some s, Some t) \<Rightarrow> js_inf_of_sign (s * t)
      | _ \<Rightarrow> NaN)"

fun js_div :: "jsnum \<Rightarrow> jsnum \<Rightarrow> jsnum" where
  "js_div (Fin a) (Fin b) =
     (if b \<noteq> 0 then Fin (a / b)
      else if a = 0 then NaN else if 0 < a then PInf else NInf)"
| "js_div NaN _ = NaN"
| "js_div _ NaN = NaN"
| "js_div (Fin a) _ = Fin 0"
| "js_div PInf (Fin b) = (if 0 \<le> b then PInf else NInf)"
| "js_div NInf (Fin b) = (if 0 \<le> b then NInf else PInf)"
| "js_div _ _ = NaN"

fun js_lt :: "jsnum \<Rightarrow> jsnum \<Rightarrow> bool" where
  "js_lt (Fin a) (Fin b) = (a < b)"
| "js_lt NaN _ = False"
| "js_lt _ NaN = False"
| "js_lt _ NInf = False"
| "js_lt PInf _ = False"
| "js_lt _ _ = True"

definition js_gt :: "jsnum \<Rightarrow> jsnum \<Rightarrow> bool" where
  "js_gt a b = js_lt b a"

fun js_le :: "jsnum \<Rightarrow> jsnum \<Rightarrow> bool" where
  "js_le (Fin a) (Fin b) = (a \<le> b)"
| "js_le NaN _ = False"
| "js_le _ NaN = False"
| "js_le NInf _ = True"
| "js_le _ PInf = True"
| "js_le _ _ = False"

definition js_ge :: "jsnum \<Rightarrow> jsnum \<Rightarrow> bool" where
  "js_ge a b = js_le b a"

text \<open>\<open>Math.max\<close> and \<open>Math.min\<close> of two arguments: NaN as soon as one argument is NaN.\<close>

fun js_max :: "jsnum \<Rightarrow> jsnum \<Rightarrow> jsnum" where
  "js_max NaN _ = NaN"
| "js_max _ NaN = NaN"
| "js_max a b = (if js_lt a b then b else a)"

fun js_min :: "jsnum \<Rightarrow> jsnum \<Rightarrow> jsnum" where
  "js_min NaN _ = NaN"
| "js_min _ NaN = NaN"
| "js_min a b = (if js_lt b a then b else a)"

text \<open>Truthiness of a Number and the operator \<open>a || b\<close>: zero and NaN are falsy.\<close>

fun js_truthy :: "jsnum \<Rightarrow> bool" where
  "js_truthy (Fin a) = (a \<noteq> 0)"
| "js_truthy NaN = False"
| "js_truthy _ = True"

definition js_or :: "jsnum \<Rightarrow> jsnum \<Rightarrow> jsnum" where
  "js_or a b = (if js_truthy a then a else b)"

text \<open>\<open>Math.ceil\<close>, \<open>Math.round\<close> (half towards plus infinity) and \<open>Math.sqrt\<close>.\<close>

fun js_ceil :: "jsnum \<Rightarrow> jsnum" where
  "js_ceil (Fin a) = Fin (of_int \<lceil>a\<rceil>)"
| "js_ceil x = x"

fun js_round :: "jsnum \<Rightarrow> jsnum" where
  "js_round (Fin a) = Fin (of_int \<lfloor>a + 1 / 2\<rfloor>)"
| "js_round x = x"

fun js_sqrt :: "jsnum \<Rightarrow> jsnum" where
  "js_sqrt (Fin a) = (if a < 0 then NaN else Fin (sqrt a))"
| "js_sqrt PInf = PInf"
| "js_sqrt x = NaN"

text \<open>
  \<open>Math.pow(base, y)\<close> for a finite exponent \<open>y\<close> (the exponents of the code are the
  literals 1.852, 4.871 and 2). A negative base has a power only for an integral
  exponent.
\<close>

definition is_integral :: "real \<Rightarrow> bool" where
  "is_integral y = (of_int \<lfloor>y\<rfloor> = y)"

definition is_odd_integral :: "real \<Rightarrow> bool" where
  "is_odd_integral y = (is_integral y \<and> odd \<lfloor>y\<rfloor>)"

fun js_pow :: "jsnum \<Rightarrow> real \<Rightarrow> jsnum" where
  "js_pow (Fin a) y =
     (if y = 0 then Fin 1
      else if 0 < a then Fin (a powr y)
      else if a = 0 then (if 0 < y then Fin 0 else PInf)
      else if is_integral y then Fin (a powi \<lfloor>y\<rfloor>)
      else NaN)"
| "js_pow PInf y = (if y = 0 then Fin 1 else if 0 < y then PInf else Fin 0)"
| "js_pow NInf y =
     (if y = 0 then Fin 1
      else if 0 < y then (if is_odd_integral y then NInf else PInf)
      else Fin 0)"
| "js_pow NaN y = (if y = 0 then Fin 1 else NaN)"



section \<open>Legacy planner (area in hectares): water demand\<close>

text \<open>
  The functions of \<open>script.js\<close> read their parameters from the form:
  \<open>parseFloat(document.getElementById(id).value)\<close>. The record holds the Number each
  of these reads returns, under the id of its form field.
\<close>

record dom_inputs =
  dom_area :: jsnum
  dom_kc :: jsnum
  dom_eto :: jsnum
  dom_rainfall :: jsnum
  dom_main_diameter :: jsnum
  dom_max_lateral :: jsnum

definition calculateWaterDemand :: "dom_inputs \<Rightarrow> jsnum" where
  "calculateWaterDemand inp =
     (let area = dom_area inp;
          kc = dom_kc inp;
          eto = dom_eto inp;
          rainfall = dom_rainfall inp;
          etc = js_mul kc eto;
          netIrrigation = js_max (Fin 0) (js_sub etc rainfall);
          waterDemand = js_mul (js_mul netIrrigation area) (Fin 10000)
      in waterDemand)"

section \<open>Planner in Thai units (area in rai): water balance\<close>





text \<open>The object \<open>getPlannerInputs\<close> returns.\<close>

record planner_inputs =
  cropType :: string
  areaRai :: jsnum
  kc :: jsnum
  kcInitial :: jsnum
  kcDevelopment :: jsnum
  kcMid :: jsnum
  kcLate :: jsnum
  eto :: jsnum
  rainfall :: jsnum
  efficiency :: jsnum
  mainDiameter :: jsnum
  maxLateral :: jsnum
  hoursPerDay :: jsnum
  spacingX :: jsnum
  spacingY :: jsnum
  layoutMode :: string



record water_demand =
  areaM2 :: jsnum
  seasonalKc :: jsnum
  etc :: jsnum
  effectiveRain :: jsnum
  netIrrigation :: jsnum
  efficiencyFraction :: jsnum
  appliedDepth :: jsnum
  waterDemandLday :: jsnum


section \<open>Planner in Thai units: hydraulics\<close>




section \<open>Legacy planner: pipe length, hydraulics, zones\<close>

definition calculatePipeLength :: "dom_inputs \<Rightarrow> jsnum" where
  "calculatePipeLength inp =
     (let area = dom_area inp;
          areaM2' = js_mul area (Fin 10000);
          sideLength = js_sqrt areaM2';
          estimatedLength = js_mul (js_mul sideLength (Fin 2)) (Fin 1.2)
      in js_round estimatedLength)"

definition calculateHeadLoss :: "dom_inputs \<Rightarrow> jsnum" where
  "calculateHeadLoss inp =
     (let waterDemand = calculateWaterDemand inp;
          flowRate = js_div waterDemand (js_mul (Fin 24) (Fin 3600));
          flowRateM3s = js_div flowRate (Fin 1000);
          diameter = js_div (dom_main_diameter inp) (Fin 1000);
          length' = calculatePipeLength inp;
          C = Fin 150;
          hf' = js_div
                  (js_mul (js_mul (Fin 10.67) (js_pow flowRateM3s 1.852)) length')
                  (js_mul (js_pow C 1.852) (js_pow diameter 4.871));
          operatingHead = Fin 30;
          headLossPercent' = js_mul (js_div hf' operatingHead) (Fin 100)
      in js_max (Fin 0) (js_min (Fin 100) headLossPercent'))"

text \<open>
  The two copies of \<open>calculateMaxLateralLength\<close> in \<open>script.js\<close> differ only in how the
  form fields are read.
\<close>

definition calculateMaxLateralLength :: "dom_inputs \<Rightarrow> jsnum" where
  "calculateMaxLateralLength inp =
     (let diameter = dom_main_diameter inp;
          maxLateral' = dom_max_lateral inp;
          waterDemand = calculateWaterDemand inp;
          flowPerLateral = js_div waterDemand (Fin 10);
          flowRate = js_div flowPerLateral (js_mul (js_mul (Fin 24) (Fin 3600)) (Fin 1000));
          diameterM = js_div diameter (Fin 1000);
          C = Fin 150;
          maxHeadLoss = js_mul (Fin 0.05) (Fin 30);
          maxLength = js_div
                        (js_mul (js_mul maxHeadLoss (js_pow C 1.852)) (js_pow diameterM 4.871))
                        (js_mul (Fin 10.67) (js_pow flowRate 1.852))
      in js_min maxLateral' (js_max (Fin 50) maxLength))"

definition calculateZones :: "dom_inputs \<Rightarrow> jsnum" where
  "calculateZones inp =
     (let waterDemand = calculateWaterDemand inp;
          maxZoneCapacity = Fin 50000;
          zones = js_ceil (js_div waterDemand maxZoneCapacity)
      in js_max (Fin 1) zones)"

section \<open>Legacy planner: bill of materials\<close>

record bom_item =
  item :: string
  quantity :: jsnum
  unit :: string
  unitPrice :: jsnum
  item_total :: jsnum

text \<open>
  The price table \<open>prices.pipe\<close>, read as \<open>prices.pipe[diameter]\<close>: the property key is
  the decimal string of the diameter, so only the eight listed integers have an entry and
  every other Number reads \<open>undefined\<close> (here \<open>None\<close>).
\<close>

definition prices_pipe :: "jsnum \<Rightarrow> jsnum option" where
  "prices_pipe diameter =
     (case diameter of
        Fin d \<Rightarrow> map_of [(50, Fin 2.5), (63, Fin 3.0), (75, Fin 3.5), (90, Fin 4.0),
                          (110, Fin 5.0), (125, Fin 6.0), (140, Fin 7.0), (160, Fin 8.0)] d
      | _ \<Rightarrow> None)"

definition prices_fittings :: jsnum where "prices_fittings = Fin 15"
definition prices_valves :: jsnum where "prices_valves = Fin 25"
definition prices_emitters :: jsnum where "prices_emitters = Fin 0.5"
definition prices_pump :: jsnum where "prices_pump = Fin 500"
definition prices_controller :: jsnum where "prices_controller = Fin 200"

text \<open>
  The first item's name is the template string \<open>`Main Pipe (${diameter}mm)`\<close>. The
  decimal string JavaScript prints for a Number is the runtime's own; it is the
  parameter \<open>numToString\<close>. The field \<open>item_total\<close> is the field \<open>total\<close> of the source.
\<close>

definition calculateBOM :: "(jsnum \<Rightarrow> string) \<Rightarrow> dom_inputs \<Rightarrow> bom_item list" where
  "calculateBOM numToString inp =
     (let area = dom_area inp;
          diameter = dom_main_diameter inp;
          pipeLength = calculatePipeLength inp;
          zones = calculateZones inp;
          pipePrice = (case prices_pipe diameter of Some p \<Rightarrow> js_or p (Fin 5) | None \<Rightarrow> Fin 5);
          lateralLength = js_ceil (js_mul pipeLength (Fin 0.5));
          numFittings = js_ceil (js_div pipeLength (Fin 20));
          numEmitters = js_ceil (js_mul area (Fin 10000))
      in [\<lparr>item = ''Main Pipe ('' @ numToString diameter @ ''mm)'',
           quantity = js_ceil pipeLength, unit = ''m'', unitPrice = pipePrice,
           item_total = js_mul (js_ceil pipeLength) pipePrice\<rparr>,
          \<lparr>item = ''Lateral Pipes (16mm)'',
           quantity = lateralLength, unit = ''m'', unitPrice = Fin 1.5,
           item_total = js_mul lateralLength (Fin 1.5)\<rparr>,
          \<lparr>item = ''Pipe Fittings'',
           quantity = numFittings, unit = ''pcs'', unitPrice = prices_fittings,
           item_total = js_mul numFittings prices_fittings\<rparr>,
          \<lparr>item = ''Control Valves'',
           quantity = zones, unit = ''pcs'', unitPrice = prices_valves,
           item_total = js_mul zones prices_valves\<rparr>,
          \<lparr>item = ''Drip Emitters'',
           quantity = numEmitters, unit = ''pcs'', unitPrice = prices_emitters,
           item_total = js_mul numEmitters prices_emitters\<rparr>,
          \<lparr>item = ''Irrigation Pump'',
           quantity = Fin 1, unit = ''pcs'', unitPrice = prices_pump,
           item_total = prices_pump\<rparr>,
          \<lparr>item = ''Irrigation Controller'',
           quantity = Fin 1, unit = ''pcs'', unitPrice = prices_controller,
           item_total = prices_controller\<rparr>])"

section \<open>Legacy planner: application state and design response\<close>

record calculation_state =
  waterDemand :: jsnum
  pipeLength :: jsnum
  headLoss :: jsnum
  maxLateralLength :: jsnum
  validationStatus :: string
  validationNotes :: "string list"
  bom :: "bom_item list"

record satellite_data =
  ndviMean :: jsnum
  slopeClass :: string
  soilType :: string
  sat_timestamp :: string

text \<open>The fields of \<open>AppState\<close> that the calculation and the response builder use.\<close>

record app_state =
  calculationState :: calculation_state
  satelliteSummary :: "satellite_data option"

definition initial_calculation_state :: calculation_state where
  "initial_calculation_state =
     \<lparr>waterDemand = Fin 0, pipeLength = Fin 0, headLoss = Fin 0, maxLateralLength = Fin 0,
      validationStatus = ''pending'', validationNotes = [], bom = []\<rparr>"

text \<open>\<open>calculateAll\<close> stores the five results; the refresh of the page that follows is not modelled.\<close>

definition calculateAll :: "(jsnum \<Rightarrow> string) \<Rightarrow> dom_inputs \<Rightarrow> app_state \<Rightarrow> app_state" where
  "calculateAll numToString inp app =
     app\<lparr>calculationState :=
       (calculationState app)
         \<lparr>waterDemand := calculateWaterDemand inp,
          pipeLength := calculatePipeLength inp,
          headLoss := calculateHeadLoss inp,
          maxLateralLength := calculateMaxLateralLength inp,
          bom := calculateBOM numToString inp\<rparr>\<rparr>"

datatype js_error = RangeError | TypeError

text \<open>
  \<open>Array.from({ length: n }, f)\<close> reads the length with \<open>ToLength\<close> (NaN and negative
  values give 0, a fraction is cut off) and throws a RangeError for a length above
  \<open>2^32 - 1\<close>.
\<close>

fun array_length :: "jsnum \<Rightarrow> js_error + nat" where
  "array_length (Fin a) =
     (if a < 1 then Inr 0
      else if \<lfloor>a\<rfloor> \<le> 2 ^ 32 - 1 then Inr (nat \<lfloor>a\<rfloor>)
      else Inl RangeError)"
| "array_length PInf = Inl RangeError"
| "array_length NInf = Inr 0"
| "array_length NaN = Inr 0"

record zone_detail =
  zoneId :: jsnum
  lengthM :: jsnum

record zones_info =
  z_count :: jsnum
  z_lengthPerZoneM :: jsnum
  z_details :: "zone_detail list"

record validation_info =
  v_status :: string
  v_notes :: "string list"

text \<open>
  The response object. \<open>r_satelliteSummary = None\<close> is the object with the three \<open>null\<close>
  fields that stands in when no satellite summary is stored. The fields carry the prefix
  \<open>r_\<close>, \<open>z_\<close> or \<open>v_\<close> of their object.
\<close>

record design_response =
  r_waterDemandLday :: jsnum
  r_pipeLengthM :: jsnum
  r_headLossPercent :: jsnum
  r_maxLateralLengthM :: jsnum
  r_zones :: zones_info
  r_validation :: validation_info
  r_satelliteSummary :: "satellite_data option"
  r_bom :: "bom_item list"
  r_totalCost :: jsnum
  r_timestamp :: string

text \<open>
  \<open>buildDesignResponseFromState\<close> reads the stored state, calls \<open>calculateZones\<close> on the
  form and stamps the response with the current time (the parameter \<open>now\<close>).
\<close>

definition buildDesignResponseFromState ::
  "string \<Rightarrow> dom_inputs \<Rightarrow> app_state \<Rightarrow> js_error + design_response" where
  "buildDesignResponseFromState now inp app =
     (let state = calculationState app;
          zones = calculateZones inp;
          bomTotal = foldl (\<lambda>sum i. js_add sum (item_total i)) (Fin 0) (bom state);
          pipeLength' = pipeLength state;
          lengthPerZone = js_ceil (js_div pipeLength' zones)
      in case array_length zones of
           Inl e \<Rightarrow> Inl e
         | Inr n \<Rightarrow>
             Inr \<lparr>r_waterDemandLday = waterDemand state,
                  r_pipeLengthM = pipeLength state,
                  r_headLossPercent = headLoss state,
                  r_maxLateralLengthM = maxLateralLength state,
                  r_zones =
                    \<lparr>z_count = zones,
                     z_lengthPerZoneM = lengthPerZone,
                     z_details =
                       map (\<lambda>i. \<lparr>zoneId = Fin (real i + 1), lengthM = lengthPerZone\<rparr>) [0..<n]\<rparr>,
                  r_validation =
                    \<lparr>v_status = validationStatus state, v_notes = validationNotes state\<rparr>,
                  r_satelliteSummary = satelliteSummary app,
                  r_bom = map (\<lambda>i. \<lparr>item = item i, quantity = quantity i, unit = unit i,
                                       unitPrice = unitPrice i, item_total = item_total i\<rparr>)
                            (bom state),
                  r_totalCost = bomTotal,
                  r_timestamp = now\<rparr>)"



section \<open>Planner in Thai units: cost items\<close>

text \<open>The fields of the design object that \<open>buildCostItems\<close> reads.\<close>

record cost_design =
  cd_mainLength :: jsnum
  cd_lateralLength :: jsnum
  cd_sprinklerCount :: jsnum
  cd_valves :: jsnum
  cd_pumpPowerHp :: jsnum

record cost_item =
  ci_name :: string
  qty :: jsnum
  ci_unit :: string
  ci_unitPrice :: jsnum

text \<open>The names carry the diameter sign, the character of code 216.\<close>

definition buildCostItems ::
  "(jsnum \<Rightarrow> string) \<Rightarrow> cost_design \<Rightarrow> planner_inputs \<Rightarrow> cost_item list" where
  "buildCostItems numToString design inputs =
     (let mainPipeLen = js_or (cd_mainLength design) (Fin 0);
          lateralPipeLen = js_or (cd_lateralLength design) (Fin 0);
          sprinklers = js_or (cd_sprinklerCount design) (Fin 0);
          valves = js_max (Fin 1)
                     (js_or (js_or (cd_valves design)
                                (js_round (js_div (js_or (areaRai inputs) (Fin 0)) (Fin 4))))
                        (Fin 1));
          pumpHp = js_or (cd_pumpPowerHp design) (Fin 0)
      in [\<lparr>ci_name = ''Main pipe '' @ [CHR 0xD8]
                    @ numToString (js_or (mainDiameter inputs) (Fin 75)) @ '' mm'',
           qty = mainPipeLen, ci_unit = ''m'', ci_unitPrice = Fin 120\<rparr>,
          \<lparr>ci_name = ''Lateral pipe '' @ [CHR 0xD8] @ ''32 mm'',
           qty = lateralPipeLen, ci_unit = ''m'', ci_unitPrice = Fin 70\<rparr>,
          \<lparr>ci_name = ''Sprinkler heads'',
           qty = sprinklers, ci_unit = ''pcs'', ci_unitPrice = Fin 85\<rparr>,
          \<lparr>ci_name = ''Control valves'',
           qty = valves, ci_unit = ''pcs'', ci_unitPrice = Fin 550\<rparr>,
          \<lparr>ci_name = ''Filter set'',
           qty = Fin 1, ci_unit = ''set'', ci_unitPrice = Fin 9500\<rparr>,
          \<lparr>ci_name = ''Pump (approx '' @ numToString pumpHp @ '' hp)'',
           qty = Fin 1, ci_unit = ''set'', ci_unitPrice = Fin 45000\<rparr>])"

text \<open>
  \<open>onShowBOM\<close> fills the table of the page, one row per cost item, and prints the grand
  total it accumulates over the rows; the model returns that total. The design is the
  last design of the planner, or the one built from the inputs when there is none.
\<close>

definition onShowBOM :: "(jsnum \<Rightarrow> string) \<Rightarrow> cost_design \<Rightarrow> planner_inputs \<Rightarrow> jsnum" where
  "onShowBOM numToString design inputs =
     (let items = buildCostItems numToString design inputs
      in foldl (\<lambda>totalCost it. js_add totalCost (js_mul (qty it) (ci_unitPrice it)))
           (Fin 0) items)"

section \<open>Seasonal simulation\<close>

subsection \<open>Legacy planner: daily demand per month and its peak\<close>









subsection \<open>Planner in Thai units: monthly demand and its peak\<close>













section \<open>Reference formulas of the design document\<close>





text \<open>
  The zone plan of the design document: \<open>zoneCount = max(1, ceil(demand / maxZoneCapacity))\<close>
  and \<open>lengthPerZoneM = ceil(totalPipeLengthM / zoneCount)\<close>.
\<close>

record zone_plan =
  zoneCount :: jsnum
  lengthPerZoneM :: jsnum

definition spec_partitionZones :: "jsnum \<Rightarrow> jsnum \<Rightarrow> jsnum \<Rightarrow> zone_plan" where
  "spec_partitionZones waterDemandLPerDay maxZoneCapacityLPerDay totalPipeLengthM =
     (let count = js_max (Fin 1) (js_ceil (js_div waterDemandLPerDay maxZoneCapacityLPerDay))
      in \<lparr>zoneCount = count, lengthPerZoneM = js_ceil (js_div totalPipeLengthM count)\<rparr>)"

section \<open>Water balance: golden values and the effective-rainfall curve\<close>

lemmas js_defs = js_sub_def js_or_def js_gt_def js_ge_def js_inf_of_sign_def


text \<open>
  The legacy function takes the area in hectares and has no efficiency: for the same
  crop and climate and 10 hectares it returns 150000 L/day.
\<close>

lemma calculateWaterDemand_legacy_10ha:
  "calculateWaterDemand (inp\<lparr>dom_area := Fin 10, dom_kc := Fin 0.3, dom_eto := Fin 5,
      dom_rainfall := Fin 0\<rparr>) = Fin 150000"
  by (simp add: calculateWaterDemand_def js_defs Let_def)





section \<open>Water demand: edge cases\<close>















section \<open>Head loss as a percentage of the operating head\<close>














lemma sqrt_10000: "sqrt 10000 = 100"
  using real_sqrt_abs [of 100] by simp





section \<open>Maximum lateral length\<close>



lemma cap_floor_PInf:
  "js_min (Fin u) (js_max (Fin f) PInf) = Fin u"
  by simp







section \<open>Bill of materials: line items\<close>

text \<open>
  C9. For every input, \<open>calculateBOM\<close> returns exactly seven items, in this order: the main
  pipe (named with the diameter), lateral pipes, pipe fittings, control valves, drip
  emitters, the irrigation pump and the irrigation controller; the pump and the
  controller have the quantity 1.
\<close>

theorem C9_bom_items:
  "map item (calculateBOM numToString inp) =
     [''Main Pipe ('' @ numToString (dom_main_diameter inp) @ ''mm)'',
      ''Lateral Pipes (16mm)'', ''Pipe Fittings'', ''Control Valves'', ''Drip Emitters'',
      ''Irrigation Pump'', ''Irrigation Controller'']
   \<and> length (calculateBOM numToString inp) = 7
   \<and> item (calculateBOM numToString inp ! 5) = ''Irrigation Pump''
   \<and> quantity (calculateBOM numToString inp ! 5) = Fin 1
   \<and> item (calculateBOM numToString inp ! 6) = ''Irrigation Controller''
   \<and> quantity (calculateBOM numToString inp ! 6) = Fin 1"
  by (simp add: calculateBOM_def Let_def)

section \<open>Bill of materials: total cost\<close>

lemma calculateBOM_item_total:
  "i \<in> set (calculateBOM numToString inp) \<Longrightarrow> item_total i = js_mul (quantity i) (unitPrice i)"
  by (auto simp: calculateBOM_def Let_def prices_pump_def prices_controller_def)

lemma copy_bom_item:
  "\<lparr>item = item i, quantity = quantity i, unit = unit i, unitPrice = unitPrice i,
     item_total = item_total i\<rparr> = (i :: bom_item)"
  by (cases i) simp

lemma foldl_js_add_map:
  "foldl (\<lambda>sum i. js_add sum (f i)) a xs = foldl js_add a (map f xs)"
  by (induction xs arbitrary: a) simp_all

lemma response_bom:
  assumes "buildDesignResponseFromState now inp app = Inr r"
  shows "r_bom r = bom (calculationState app)"
    and "r_totalCost r = foldl js_add (Fin 0) (map item_total (bom (calculationState app)))"
proof -
  from assms show "r_bom r = bom (calculationState app)"
    by (auto simp: buildDesignResponseFromState_def Let_def copy_bom_item split: sum.splits)
  from assms have "r_totalCost r =
      foldl (\<lambda>sum i. js_add sum (item_total i)) (Fin 0) (bom (calculationState app))"
    by (auto simp: buildDesignResponseFromState_def Let_def split: sum.splits)
  then show "r_totalCost r = foldl js_add (Fin 0) (map item_total (bom (calculationState app)))"
    by (simp only: foldl_js_add_map [of item_total])
qed

lemma array_length_zones:
  assumes "calculateWaterDemand inp = Fin w" "w \<le> 50000 * (2 ^ 32 - 1)"
  shows "\<exists>n. array_length (calculateZones inp) = Inr n"
proof -
  have "\<lceil>w / 50000\<rceil> \<le> 2 ^ 32 - 1"
    using assms(2) by (simp add: ceiling_le_iff)
  then show ?thesis
    using assms(1) by (auto simp: calculateZones_def Let_def)
qed


lemma foldl_js_add_Fin: "foldl js_add (Fin a) (map Fin xs) = Fin (a + sum_list xs)"
  by (induction xs arbitrary: a) (simp_all add: add.assoc)

lemma finite_line_totals:
  "map q xs = map Fin qs \<Longrightarrow> map p xs = map Fin ps \<Longrightarrow>
   map (\<lambda>i. js_mul (q i) (p i)) xs = map Fin (map2 (*) qs ps)"
proof (induction xs arbitrary: qs ps)
  case Nil
  then show ?case by simp
next
  case (Cons x xs)
  then obtain q' qs' p' ps' where "qs = q' # qs'" "ps = p' # ps'"
    by (cases qs; cases ps) auto
  with Cons show ?case by auto
qed

lemma calculateAll_bom: "bom (calculationState (calculateAll numToString inp app))
    = calculateBOM numToString inp"
  by (simp add: calculateAll_def)

text \<open>
  C6. In the response built from the state that \<open>calculateAll\<close> stored, the bill of
  materials is the one \<open>calculateBOM\<close> produced and \<open>totalCost\<close> is the sum, in list order,
  of quantity times unit price over its items, which is also the sum of the items'
  totals; when all quantities and prices are finite it is the sum of the real products.
  The response is built whenever the number of zones fits an array. The grand total that
  \<open>onShowBOM\<close> prints for the planner in Thai units is the same sum over its cost items.
\<close>

theorem C6_total_cost:
  fixes app :: app_state and inp :: dom_inputs and now :: string
    and numToString :: "jsnum \<Rightarrow> string"
    and design :: cost_design and inputs :: planner_inputs
  defines "resp \<equiv> buildDesignResponseFromState now inp (calculateAll numToString inp app)"
    and "items \<equiv> buildCostItems numToString design inputs"
  shows "(resp = Inr r \<longrightarrow>
            r_bom r = calculateBOM numToString inp
          \<and> r_totalCost r =
              foldl js_add (Fin 0) (map (\<lambda>i. js_mul (quantity i) (unitPrice i)) (r_bom r))
          \<and> r_totalCost r = foldl js_add (Fin 0) (map item_total (r_bom r))
          \<and> (map quantity (r_bom r) = map Fin qs \<and> map unitPrice (r_bom r) = map Fin ps \<longrightarrow>
               r_totalCost r = Fin (sum_list (map2 (*) qs ps))))
       \<and> (calculateWaterDemand inp = Fin w \<and> w \<le> 50000 * (2 ^ 32 - 1) \<longrightarrow>
            (\<exists>r'. resp = Inr r'))
       \<and> onShowBOM numToString design inputs =
            foldl js_add (Fin 0) (map (\<lambda>it. js_mul (qty it) (ci_unitPrice it)) items)
       \<and> (map qty items = map Fin qs' \<and> map ci_unitPrice items = map Fin ps' \<longrightarrow>
            onShowBOM numToString design inputs = Fin (sum_list (map2 (*) qs' ps')))"
proof (intro conjI impI)
  assume r: "resp = Inr r"
  from response_bom [OF r [unfolded resp_def]]
  show b: "r_bom r = calculateBOM numToString inp"
    and t: "r_totalCost r = foldl js_add (Fin 0) (map item_total (r_bom r))"
    by (simp_all add: calculateAll_bom)
  have "map item_total (r_bom r) = map (\<lambda>i. js_mul (quantity i) (unitPrice i)) (r_bom r)"
    unfolding b by (rule map_cong [OF refl]) (rule calculateBOM_item_total)
  with t show q: "r_totalCost r =
      foldl js_add (Fin 0) (map (\<lambda>i. js_mul (quantity i) (unitPrice i)) (r_bom r))"
    by simp
  {
    assume "map quantity (r_bom r) = map Fin qs \<and> map unitPrice (r_bom r) = map Fin ps"
    then have "map (\<lambda>i. js_mul (quantity i) (unitPrice i)) (r_bom r) = map Fin (map2 (*) qs ps)"
      by (intro finite_line_totals) simp_all
    with q have "r_totalCost r = foldl js_add (Fin 0) (map Fin (map2 (*) qs ps))"
      by (simp only:)
    then show "r_totalCost r = Fin (sum_list (map2 (*) qs ps))"
      by (simp only: foldl_js_add_Fin add_0)
  }
next
  assume "calculateWaterDemand inp = Fin w \<and> w \<le> 50000 * (2 ^ 32 - 1)"
  then obtain n where "array_length (calculateZones inp) = Inr n"
    using array_length_zones by blast
  then show "\<exists>r'. resp = Inr r'"
    by (simp add: resp_def buildDesignResponseFromState_def Let_def)
next
  show s: "onShowBOM numToString design inputs =
      foldl js_add (Fin 0) (map (\<lambda>it. js_mul (qty it) (ci_unitPrice it)) items)"
    by (simp only: onShowBOM_def Let_def items_def
        foldl_js_add_map [of "\<lambda>it. js_mul (qty it) (ci_unitPrice it)"])
  assume "map qty items = map Fin qs' \<and> map ci_unitPrice items = map Fin ps'"
  then have "map (\<lambda>it. js_mul (qty it) (ci_unitPrice it)) items = map Fin (map2 (*) qs' ps')"
    by (intro finite_line_totals) simp_all
  with s have "onShowBOM numToString design inputs =
      foldl js_add (Fin 0) (map Fin (map2 (*) qs' ps'))"
    by (simp only:)
  then show "onShowBOM numToString design inputs = Fin (sum_list (map2 (*) qs' ps'))"
    by (simp only: foldl_js_add_Fin add_0)
qed

theorem C6_total_cost_witness:
  fixes inp :: dom_inputs and app :: app_state and design :: cost_design
    and inputs :: planner_inputs
  defines "inp \<equiv> \<lparr>dom_area = Fin 1, dom_kc = Fin 0.9, dom_eto = Fin 5, dom_rainfall = Fin 0,
      dom_main_diameter = Fin 110, dom_max_lateral = Fin 100\<rparr>"
    and "app \<equiv> \<lparr>calculationState = initial_calculation_state, satelliteSummary = None\<rparr>"
    and "design \<equiv> \<lparr>cd_mainLength = Fin 133, cd_lateralLength = Fin 1463,
      cd_sprinklerCount = Fin 112, cd_valves = Fin 2, cd_pumpPowerHp = Fin 0.5\<rparr>"
    and "inputs \<equiv> \<lparr>cropType = ''rice'', areaRai = Fin 10, kc = Fin 0.9, kcInitial = Fin 0.3,
      kcDevelopment = Fin 0.7, kcMid = Fin 1, kcLate = Fin 0.7, eto = Fin 5, rainfall = Fin 0,
      efficiency = Fin 80, mainDiameter = Fin 110, maxLateral = Fin 100, hoursPerDay = Fin 8,
      spacingX = Fin 12, spacingY = Fin 12, layoutMode = ''heuristic''\<rparr>"
  shows "calculateWaterDemand inp = Fin 45000
     \<and> (\<exists>r. buildDesignResponseFromState ''2025-01-01T00:00:00.000Z'' inp
              (calculateAll (\<lambda>n. ''110'') inp app) = Inr r
          \<and> map quantity (r_bom r) = map Fin [240, 120, 12, 1, 10000, 1, 1]
          \<and> map unitPrice (r_bom r) = map Fin [5, 1.5, 15, 25, 0.5, 500, 200]
          \<and> r_totalCost r = Fin 7285)
     \<and> map qty (buildCostItems (\<lambda>n. ''110'') design inputs) = map Fin [133, 1463, 112, 2, 1, 1]
     \<and> map ci_unitPrice (buildCostItems (\<lambda>n. ''110'') design inputs)
          = map Fin [120, 70, 85, 550, 9500, 45000]
     \<and> onShowBOM (\<lambda>n. ''110'') design inputs = Fin 183490"
proof -
  have w: "calculateWaterDemand inp = Fin 45000"
    by (simp add: inp_def calculateWaterDemand_def js_defs Let_def)
  note c6 = C6_total_cost [where inp = inp and w = 45000 and app = app
      and now = "''2025-01-01T00:00:00.000Z''" and numToString = "\<lambda>n. ''110''"
      and qs = "[240, 120, 12, 1, 10000, 1, 1]" and ps = "[5, 1.5, 15, 25, 0.5, 500, 200]"
      and design = design and inputs = inputs
      and qs' = "[133, 1463, 112, 2, 1, 1]" and ps' = "[120, 70, 85, 550, 9500, 45000]"]
  have "(45000 :: real) \<le> 50000 * (2 ^ 32 - 1)"
    by simp
  with c6 w obtain r where r: "buildDesignResponseFromState ''2025-01-01T00:00:00.000Z'' inp
      (calculateAll (\<lambda>n. ''110'') inp app) = Inr r"
    by blast
  with c6 have b: "r_bom r = calculateBOM (\<lambda>n. ''110'') inp"
    by blast
  have l: "calculatePipeLength inp = Fin 240"
    by (simp add: inp_def calculatePipeLength_def Let_def sqrt_10000)
  have z: "calculateZones inp = Fin 1"
    by (simp add: calculateZones_def w Let_def)
  have q: "map quantity (r_bom r) = map Fin [240, 120, 12, 1, 10000, 1, 1]"
    unfolding b by (simp add: calculateBOM_def Let_def l z) (simp add: inp_def)
  have p: "map unitPrice (r_bom r) = map Fin [5, 1.5, 15, 25, 0.5, 500, 200]"
    unfolding b by (simp add: calculateBOM_def Let_def prices_pipe_def prices_fittings_def
        prices_valves_def prices_emitters_def prices_pump_def prices_controller_def js_defs
        inp_def)
  from c6 r q p have "r_totalCost r = Fin (sum_list (map2 (*) [240, 120, 12, 1, 10000, 1, 1]
      [5, 1.5, 15, 25, 0.5, 500, 200]))"
    by blast
  then have t: "r_totalCost r = Fin 7285"
    by simp
  have q': "map qty (buildCostItems (\<lambda>n. ''110'') design inputs)
      = map Fin [133, 1463, 112, 2, 1, 1]"
    by (simp add: buildCostItems_def design_def inputs_def Let_def js_defs)
  have p': "map ci_unitPrice (buildCostItems (\<lambda>n. ''110'') design inputs)
      = map Fin [120, 70, 85, 550, 9500, 45000]"
    by (simp add: buildCostItems_def Let_def)
  from c6 q' p' have "onShowBOM (\<lambda>n. ''110'') design inputs
      = Fin (sum_list (map2 (*) [133, 1463, 112, 2, 1, 1] [120, 70, 85, 550, 9500, 45000]))"
    by blast
  then have t': "onShowBOM (\<lambda>n. ''110'') design inputs = Fin 183490"
    by simp
  from w r q p t q' p' t' show ?thesis
    by blast
qed

section \<open>Zones of the design response\<close>

lemma response_zones:
  assumes "buildDesignResponseFromState now inp app = Inr r"
  shows "r_waterDemandLday r = waterDemand (calculationState app)"
    and "r_pipeLengthM r = pipeLength (calculationState app)"
    and "z_count (r_zones r) = calculateZones inp"
    and "z_lengthPerZoneM (r_zones r) =
           js_ceil (js_div (pipeLength (calculationState app)) (calculateZones inp))"
    and "\<forall>d \<in> set (z_details (r_zones r)). lengthM d = z_lengthPerZoneM (r_zones r)"
    and "array_length (calculateZones inp) = Inr (length (z_details (r_zones r)))"
  using assms
  by (auto simp: buildDesignResponseFromState_def Let_def split: sum.splits)

lemma js_max_Fin: "js_max (Fin a) (Fin b) = Fin (max a b)"
  by (simp add: max_def)

lemma calculateZones_Fin:
  assumes "calculateWaterDemand inp = Fin w"
  shows "calculateZones inp = Fin (of_int (max 1 \<lceil>w / 50000\<rceil>))"
proof -
  have "calculateZones inp = js_max (Fin 1) (Fin (of_int \<lceil>w / 50000\<rceil>))"
    using assms by (simp add: calculateZones_def Let_def del: js_max.simps)
  also have "\<dots> = Fin (max 1 (of_int \<lceil>w / 50000\<rceil>))"
    by (rule js_max_Fin)
  also have "max 1 (of_int \<lceil>w / 50000\<rceil>) = (of_int (max 1 \<lceil>w / 50000\<rceil>) :: real)"
    by (simp add: max_def)
  finally show ?thesis .
qed

lemma array_length_count:
  assumes "array_length (Fin (of_int z)) = Inr n" "1 \<le> z"
  shows "real n = of_int z"
  using assms by (auto split: if_splits)

text \<open>
  C7. From the fields of the response built after \<open>calculateAll\<close>, the zone plan of the
  design document, computed from \<open>waterDemandLday\<close> and \<open>pipeLengthM\<close> with a zone capacity
  of 50000, is exactly the response's \<open>zones.count\<close> and \<open>zones.lengthPerZoneM\<close> (the same
  Numbers, NaN for NaN); every zone detail carries that length, and for a finite demand
  there are \<open>zones.count\<close> details.
\<close>

theorem C7_zone_plan_round_trip:
  fixes app :: app_state and inp :: dom_inputs and now :: string
    and numToString :: "jsnum \<Rightarrow> string"
  defines "resp \<equiv> buildDesignResponseFromState now inp (calculateAll numToString inp app)"
  shows "(resp = Inr r \<longrightarrow>
            spec_partitionZones (r_waterDemandLday r) (Fin 50000) (r_pipeLengthM r)
              = \<lparr>zoneCount = z_count (r_zones r),
                 lengthPerZoneM = z_lengthPerZoneM (r_zones r)\<rparr>
          \<and> (\<forall>d \<in> set (z_details (r_zones r)).
                lengthM d = lengthPerZoneM
                  (spec_partitionZones (r_waterDemandLday r) (Fin 50000) (r_pipeLengthM r)))
          \<and> (calculateWaterDemand inp = Fin w \<longrightarrow>
                Fin (real (length (z_details (r_zones r)))) = z_count (r_zones r)))
       \<and> (calculateWaterDemand inp = Fin w \<and> w \<le> 50000 * (2 ^ 32 - 1) \<longrightarrow>
            (\<exists>r'. resp = Inr r'))"
proof (intro conjI impI)
  assume r: "resp = Inr r"
  note z = response_zones [OF r [unfolded resp_def]]
  have wd: "waterDemand (calculationState (calculateAll numToString inp app))
      = calculateWaterDemand inp"
    and pl: "pipeLength (calculationState (calculateAll numToString inp app))
      = calculatePipeLength inp"
    by (simp_all add: calculateAll_def)
  show p: "spec_partitionZones (r_waterDemandLday r) (Fin 50000) (r_pipeLengthM r)
      = \<lparr>zoneCount = z_count (r_zones r), lengthPerZoneM = z_lengthPerZoneM (r_zones r)\<rparr>"
    by (simp add: spec_partitionZones_def Let_def z(1-4) wd pl calculateZones_def)
  show "\<forall>d \<in> set (z_details (r_zones r)).
      lengthM d = lengthPerZoneM
        (spec_partitionZones (r_waterDemandLday r) (Fin 50000) (r_pipeLengthM r))"
    unfolding p using z(5) by simp
  {
    assume w: "calculateWaterDemand inp = Fin w"
    have c: "calculateZones inp = Fin (of_int (max 1 \<lceil>w / 50000\<rceil>))"
      using w by (rule calculateZones_Fin)
    have "real (length (z_details (r_zones r))) = of_int (max 1 \<lceil>w / 50000\<rceil>)"
      using z(6) unfolding c by (rule array_length_count) simp
    then show "Fin (real (length (z_details (r_zones r)))) = z_count (r_zones r)"
      by (simp add: z(3) c)
  }
next
  assume "calculateWaterDemand inp = Fin w \<and> w \<le> 50000 * (2 ^ 32 - 1)"
  then obtain n where "array_length (calculateZones inp) = Inr n"
    using array_length_zones by blast
  then show "\<exists>r'. resp = Inr r'"
    by (simp add: resp_def buildDesignResponseFromState_def Let_def)
qed


lemma sqrt_40000: "sqrt 40000 = 200"
  using real_sqrt_abs [of 200] by simp

theorem C7_zone_plan_round_trip_witness:
  fixes inp :: dom_inputs and app :: app_state
  defines "inp \<equiv> \<lparr>dom_area = Fin 4, dom_kc = Fin 0.9, dom_eto = Fin 5, dom_rainfall = Fin 0,
      dom_main_diameter = Fin 110, dom_max_lateral = Fin 100\<rparr>"
    and "app \<equiv> \<lparr>calculationState = initial_calculation_state, satelliteSummary = None\<rparr>"
  shows "calculateWaterDemand inp = Fin 180000
     \<and> (\<exists>r. buildDesignResponseFromState ''2025-01-01T00:00:00.000Z'' inp
              (calculateAll (\<lambda>n. ''110'') inp app) = Inr r
          \<and> r_waterDemandLday r = Fin 180000 \<and> r_pipeLengthM r = Fin 480
          \<and> spec_partitionZones (r_waterDemandLday r) (Fin 50000) (r_pipeLengthM r)
               = \<lparr>zoneCount = Fin 4, lengthPerZoneM = Fin 120\<rparr>
          \<and> z_count (r_zones r) = Fin 4 \<and> z_lengthPerZoneM (r_zones r) = Fin 120
          \<and> length (z_details (r_zones r)) = 4)"
proof -
  have w: "calculateWaterDemand inp = Fin 180000"
    by (simp add: inp_def calculateWaterDemand_def js_defs Let_def)
  have l: "calculatePipeLength inp = Fin 480"
    by (simp add: inp_def calculatePipeLength_def Let_def sqrt_40000)
  note c7 = C7_zone_plan_round_trip [where inp = inp and w = 180000 and app = app
      and now = "''2025-01-01T00:00:00.000Z''" and numToString = "\<lambda>n. ''110''"]
  from c7 w obtain r where r: "buildDesignResponseFromState ''2025-01-01T00:00:00.000Z'' inp
      (calculateAll (\<lambda>n. ''110'') inp app) = Inr r"
    by auto
  note z = response_zones [OF r]
  have f: "r_waterDemandLday r = Fin 180000" "r_pipeLengthM r = Fin 480"
    by (simp_all add: z calculateAll_def w l)
  then have s: "spec_partitionZones (r_waterDemandLday r) (Fin 50000) (r_pipeLengthM r)
      = \<lparr>zoneCount = Fin 4, lengthPerZoneM = Fin 120\<rparr>"
    by (simp add: spec_partitionZones_def Let_def)
  with c7 r w have "z_count (r_zones r) = Fin 4" "z_lengthPerZoneM (r_zones r) = Fin 120"
    "Fin (real (length (z_details (r_zones r)))) = z_count (r_zones r)"
    by auto
  then show ?thesis
    using w r f s by auto
qed







section \<open>Seasonal simulation: the peak month\<close>






















end
